theory Spec2Isabelle
  imports Complex_Main
begin

section \<open>Python values and exceptions\<close>

text \<open>
  The oracle's answers are decoded by \<^verbatim>\<open>json.loads\<close>, so the values that flow through
  the pipeline are the Python values JSON decodes to. A float is represented by what Python's
  comparisons see of it: the rational it denotes, an infinity, or NaN (\<^verbatim>\<open>json.loads\<close>
  accepts \<^verbatim>\<open>NaN\<close> and \<^verbatim>\<open>Infinity\<close>). A dict is an association list in which the first
  binding of a key is the one that counts. A \<open>string\<close> stands for a Python \<^verbatim>\<open>str\<close>, one
  \<open>char\<close> per character.
\<close>

datatype pyfloat = Finite rat | PosInf | NegInf | NaN

datatype pyval =
    PNone
  | PBool bool
  | PInt int
  | PFloat pyfloat
  | PStr string
  | PList "pyval list"
  | PDict "(string \<times> pyval) list"

datatype exn_kind =
    TypeError | AttributeError | IndexError | KeyError | ValueError
  | RecursionError | JSONDecodeError | OracleError

text \<open>An exception: its class and \<^verbatim>\<open>str(e)\<close>.\<close>

datatype exn = Exn exn_kind string

fun kind_of :: "exn \<Rightarrow> exn_kind" where
  "kind_of (Exn k m) = k"

fun str_exn :: "exn \<Rightarrow> string" where
  "str_exn (Exn k m) = m"

text \<open>Sequencing of a computation that may raise: the first exception ends it.\<close>

fun and_then :: "exn + 'a \<Rightarrow> ('a \<Rightarrow> exn + 'b) \<Rightarrow> exn + 'b" where
  "and_then (Inl e) f = Inl e"
| "and_then (Inr x) f = f x"

fun type_name :: "pyval \<Rightarrow> string" where
  "type_name PNone = ''NoneType''"
| "type_name (PBool b) = ''bool''"
| "type_name (PInt n) = ''int''"
| "type_name (PFloat x) = ''float''"
| "type_name (PStr s) = ''str''"
| "type_name (PList xs) = ''list''"
| "type_name (PDict d) = ''dict''"

text \<open>\<^verbatim>\<open>d.get(key, default)\<close> on a dict.\<close>

definition dict_get :: "(string \<times> pyval) list \<Rightarrow> string \<Rightarrow> pyval \<Rightarrow> pyval" where
  "dict_get d k dflt = (case map_of d k of None \<Rightarrow> dflt | Some v \<Rightarrow> v)"

text \<open>\<^verbatim>\<open>v.get(key, default)\<close> on any value: only a dict has the method.\<close>

definition no_get_method :: "pyval \<Rightarrow> exn" where
  "no_get_method v =
     Exn AttributeError
       ([CHR 0x27] @ type_name v @ [CHR 0x27] @ '' object has no attribute '' @
        [CHR 0x27] @ ''get'' @ [CHR 0x27])"

fun py_get :: "pyval \<Rightarrow> string \<Rightarrow> pyval \<Rightarrow> exn + pyval" where
  "py_get (PDict d) k dflt = Inr (dict_get d k dflt)"
| "py_get v k dflt = Inl (no_get_method v)"

text \<open>\<^verbatim>\<open>len(v)\<close>: defined on strings, lists and dicts.\<close>

fun py_len :: "pyval \<Rightarrow> exn + nat" where
  "py_len (PStr s) = Inr (length s)"
| "py_len (PList xs) = Inr (length xs)"
| "py_len (PDict d) = Inr (length (remdups (map fst d)))"
| "py_len v =
     Inl (Exn TypeError
       (''object of type '' @ [CHR 0x27] @ type_name v @ [CHR 0x27] @ '' has no len()''))"

text \<open>
  \<^verbatim>\<open>json.loads\<close> on the text of a message is a parameter \<open>loads\<close> of the model: it gives
  the decoded value or the exception it raises. On text that is not JSON that is a
  \<^verbatim>\<open>JSONDecodeError\<close>, but not every failure is one: text nested deeper than the
  interpreter's recursion limit raises \<^verbatim>\<open>RecursionError\<close>, and an integer literal longer
  than the interpreter's digit limit raises a plain \<^verbatim>\<open>ValueError\<close>. Given anything other
  than text (here \<^verbatim>\<open>None\<close>) \<^verbatim>\<open>json.loads\<close> raises \<^verbatim>\<open>TypeError\<close>.
\<close>

type_synonym json_decoder = "string \<Rightarrow> exn + pyval"

definition json_loads :: "json_decoder \<Rightarrow> string option \<Rightarrow> exn + pyval" where
  "json_loads loads content =
     (case content of
        None \<Rightarrow>
          Inl (Exn TypeError
            ''the JSON object must be str, bytes or bytearray, not NoneType'')
      | Some s \<Rightarrow> loads s)"

section \<open>The oracle's response\<close>

text \<open>
  A chat completion as the client library returns it: a list of choices, each with the
  content of its message, which is text or \<^verbatim>\<open>None\<close> (a refusal or a tool call has no
  content). \<^verbatim>\<open>model_dump()\<close> of a completion always has the keys \<^verbatim>\<open>choices\<close>,
  \<^verbatim>\<open>message\<close> and \<^verbatim>\<open>content\<close>, so the defaults of the \<^verbatim>\<open>.get\<close> calls on the dump are
  never taken.
\<close>

record choice =
  content :: "string option"

record completion =
  choices :: "choice list"

text \<open>What one call of \<^verbatim>\<open>client.chat.completions.create\<close> does: raise or return.\<close>

type_synonym call_outcome = "exn + completion"

section \<open>WordGrammarChecker\<close>

text \<open>
  \<^verbatim>\<open>make_api_call\<close>: inside the semaphore, every exception of the call is logged and
  turned into \<^verbatim>\<open>None\<close>.
\<close>

definition make_api_call :: "call_outcome \<Rightarrow> completion option" where
  "make_api_call outcome = (case outcome of Inl e \<Rightarrow> None | Inr response \<Rightarrow> Some response)"

text \<open>
  \<^verbatim>\<open>extract_corrections\<close>. The body of the \<^verbatim>\<open>try\<close> is \<open>extract_try\<close>; the handler
  catches \<^verbatim>\<open>json.JSONDecodeError\<close> only, every other exception leaves the function,
  also the other exceptions of \<^verbatim>\<open>json.loads\<close>.
\<close>

definition extract_try :: "json_decoder \<Rightarrow> string option \<Rightarrow> exn + (pyval \<times> pyval)" where
  "extract_try loads c =
     and_then (json_loads loads c) (\<lambda>data.
     and_then (py_get data ''properties'' (PDict [])) (\<lambda>props.
     and_then (py_get props ''corrections'' (PList [])) (\<lambda>corrections.
     and_then (py_get props ''suggestion'' (PStr [])) (\<lambda>suggestion.
     Inr (corrections, suggestion)))))"

definition extract_corrections ::
  "json_decoder \<Rightarrow> completion option \<Rightarrow> exn + (pyval \<times> pyval)" where
  "extract_corrections loads response_model =
     (case response_model of
        None \<Rightarrow> Inr (PList [], PStr [])
      | Some resp \<Rightarrow>
          (case choices resp of
             [] \<Rightarrow> Inr (PList [], PStr [])
           | c # rest \<Rightarrow>
               (case extract_try loads (content c) of
                  Inl e \<Rightarrow>
                    (if kind_of e = JSONDecodeError then Inr (PList [], PStr []) else Inl e)
                | Inr r \<Rightarrow> Inr r)))"

text \<open>
  The \<^verbatim>\<open>for\<close> loop of \<^verbatim>\<open>process_text\<close> over the responses that arrived: it appends
  each extraction to the results and ends at the first exception.
\<close>

fun extract_all ::
  "json_decoder \<Rightarrow> completion list \<Rightarrow> exn + (pyval \<times> pyval) list" where
  "extract_all loads [] = Inr []"
| "extract_all loads (r # rs) =
     and_then (extract_corrections loads (Some r)) (\<lambda>x.
     and_then (extract_all loads rs) (\<lambda>xs. Inr (x # xs)))"

text \<open>
  The constructor. \<^verbatim>\<open>asyncio.Semaphore(value)\<close> raises \<^verbatim>\<open>ValueError\<close> for a
  negative value; the field \<open>semaphore\<close> holds the semaphore's counter. An API key that
  starts with a quote character loses every leading and trailing quote character. The
  client keeps the key it was built with. \<open>chosen_model\<close> is stored as it is given.
\<close>

record checker =
  api_key :: string
  system_prompt :: string
  max_concurrent_requests :: int
  semaphore :: nat
  n_responses :: int
  text_data :: string
  chosen_model :: string
  client :: string

definition quote_chars :: "char list" where
  "quote_chars = [CHR 0x22, CHR 0x27]"

definition strip_chars :: "char list \<Rightarrow> string \<Rightarrow> string" where
  "strip_chars cs s =
     rev (dropWhile (\<lambda>c. c \<in> set cs) (rev (dropWhile (\<lambda>c. c \<in> set cs) s)))"

definition clean_api_key :: "string \<Rightarrow> string" where
  "clean_api_key k =
     (if k \<noteq> [] \<and> (take 1 k = [CHR 0x22] \<or> take 1 k = [CHR 0x27])
      then strip_chars quote_chars k else k)"

definition WordGrammarChecker_init ::
  "string \<Rightarrow> string \<Rightarrow> int \<Rightarrow> int \<Rightarrow> string \<Rightarrow> exn + checker" where
  "WordGrammarChecker_init key prompt max_concurrent n chosen =
     (if max_concurrent < 0
      then Inl (Exn ValueError ''Semaphore initial value must be >= 0'')
      else Inr \<lparr> api_key = clean_api_key key,
                 system_prompt = prompt,
                 max_concurrent_requests = max_concurrent,
                 semaphore = nat max_concurrent,
                 n_responses = n,
                 text_data = [],
                 chosen_model = chosen,
                 client = clean_api_key key \<rparr>)"

text \<open>The defaults of the constructor's optional parameters.\<close>

definition default_max_concurrent_requests :: int where
  "default_max_concurrent_requests = 5"

definition default_n_responses :: int where
  "default_n_responses = 1"

definition default_chosen_model :: string where
  "default_chosen_model = ''fast''"

text \<open>
  \<^verbatim>\<open>create_payload\<close>. The request: the model, the two messages (role and content), the
  response format with its schema, and \<^verbatim>\<open>reasoning_effort\<close> when it is set.
\<close>

record payload =
  model :: string
  messages :: "(string \<times> string) list"
  response_format :: pyval
  reasoning_effort :: "string option"

definition nullable_string :: pyval where
  "nullable_string = PDict [(''type'', PList [PStr ''string'', PStr ''null''])]"

definition correction_item_schema :: pyval where
  "correction_item_schema =
     PDict [(''type'', PStr ''object''),
            (''properties'',
               PDict [(''original_sentence'', nullable_string),
                      (''explanation'', nullable_string),
                      (''corrected_sentence'', nullable_string)]),
            (''required'',
               PList [PStr ''original_sentence'', PStr ''explanation'',
                      PStr ''corrected_sentence'']),
            (''additionalProperties'', PBool False)]"

definition inner_properties_schema :: pyval where
  "inner_properties_schema =
     PDict [(''type'', PStr ''object''),
            (''properties'',
               PDict [(''corrections'',
                         PDict [(''type'', PStr ''array''),
                                (''items'', correction_item_schema)]),
                      (''suggestion'', PDict [(''type'', PStr ''string'')])]),
            (''required'', PList [PStr ''corrections'', PStr ''suggestion'']),
            (''additionalProperties'', PBool False)]"

definition response_format_schema :: pyval where
  "response_format_schema =
     PDict [(''type'', PStr ''json_schema''),
            (''json_schema'',
               PDict [(''name'', PStr ''my_schema''),
                      (''strict'', PBool True),
                      (''schema'',
                         PDict [(''type'', PStr ''object''),
                                (''properties'',
                                   PDict [(''name'',
                                             PDict [(''type'', PStr ''string''),
                                                    (''description'',
                                                       PStr ''The name of the schema'')]),
                                          (''type'',
                                             PDict [(''type'', PStr ''string''),
                                                    (''enum'', PList [PStr ''object''])]),
                                          (''properties'', inner_properties_schema)]),
                                (''$defs'', PDict []),
                                (''required'',
                                   PList [PStr ''name'', PStr ''type'', PStr ''properties'']),
                                (''additionalProperties'', PBool False)])])]"

text \<open>
  The fixed opening of the user message. Its letters a-umlaut and o-umlaut are the
  characters 0xE4 and 0xF6; it ends with two newlines.
\<close>

definition user_message_prefix :: string where
  "user_message_prefix =
     (let a = [CHR 0xE4]; oe = [CHR 0xF6] in
      ''T'' @ a @ ''m'' @ a @ '' on teksti, josta ehk'' @ a @ '' voit l'' @ oe @ ''yt'' @ a @ a @
      '' virheit'' @ a @ '', mutta '' @ a @ ''l'' @ a @ '' kuitenkaan v'' @ a @
      ''kisin yrit'' @ a @ '' l'' @ oe @ ''yt'' @ a @ a @ '' virheit'' @ a @ '' sielt'' @ a @
      '', miss'' @ a @ '' niit'' @ a @ '' ei ole:'' @ [CHR 0x0A, CHR 0x0A])"

definition create_payload :: "checker \<Rightarrow> payload" where
  "create_payload self =
     (let (model_name, reasoning, system_role_key) =
            (if chosen_model self = ''slow''
             then (''o3-mini'', True, ''developer'')
             else (''gpt-4o'', False, ''system''))
      in \<lparr> model = model_name,
            messages = [(system_role_key, system_prompt self),
                        (''user'', user_message_prefix @ text_data self)],
            response_format = response_format_schema,
            reasoning_effort = (if reasoning then Some ''high'' else None) \<rparr>)"

text \<open>
  \<^verbatim>\<open>process_text\<close>. \<open>create p i\<close> is the outcome of the call in slot \<open>i\<close> with payload
  \<open>p\<close>; \<^verbatim>\<open>asyncio.gather\<close> returns the results in the order of the slots, whatever the
  order in which the calls complete. \<^verbatim>\<open>range(n)\<close> is empty for \<open>n \<le> 0\<close>. The function
  returns the extracted pairs and the responses that arrived. The assignment to
  \<^verbatim>\<open>self.text_data\<close> reaches \<^verbatim>\<open>create_payload\<close>; the checker is not read again
  afterwards. The writes to the log file are left out.
\<close>

definition gather_calls :: "(nat \<Rightarrow> call_outcome) \<Rightarrow> int \<Rightarrow> completion option list" where
  "gather_calls slot_outcome n = map (\<lambda>i. make_api_call (slot_outcome i)) [0..<nat n]"

definition arrived :: "completion option list \<Rightarrow> completion list" where
  "arrived responses = map the (filter (\<lambda>r. r \<noteq> None) responses)"

definition process_text ::
  "json_decoder \<Rightarrow> (payload \<Rightarrow> nat \<Rightarrow> call_outcome) \<Rightarrow> checker \<Rightarrow> string \<Rightarrow>
   exn + ((pyval \<times> pyval) list \<times> completion list)" where
  "process_text loads create self text =
     (let self = self\<lparr>text_data := text\<rparr>;
          payload = create_payload self;
          responses = arrived (gather_calls (create payload) (n_responses self))
      in if responses = [] then Inr ([], responses)
         else and_then (extract_all loads responses) (\<lambda>results_per_response.
              Inr (results_per_response, responses)))"

text \<open>
  The slots of a fan-out whose call returned, in the order of submission, and the response
  of a slot.
\<close>

definition succeeded_slots ::
  "(payload \<Rightarrow> nat \<Rightarrow> call_outcome) \<Rightarrow> checker \<Rightarrow> string \<Rightarrow> nat list" where
  "succeeded_slots create self text =
     filter (\<lambda>i. \<not> isl (create (create_payload (self\<lparr>text_data := text\<rparr>)) i))
       [0..<nat (n_responses self)]"

definition slot_response ::
  "(payload \<Rightarrow> nat \<Rightarrow> call_outcome) \<Rightarrow> checker \<Rightarrow> string \<Rightarrow> nat \<Rightarrow> completion" where
  "slot_response create self text i =
     projr (create (create_payload (self\<lparr>text_data := text\<rparr>)) i)"

section \<open>GrammarDiscriminator\<close>

text \<open>
  \<^verbatim>\<open>x < t\<close> for a threshold \<open>t\<close> that is an int: defined when \<open>x\<close> is a number (a bool
  counts as 0 or 1, a float is compared by its exact value, NaN is below nothing).
\<close>

fun float_lt_int :: "pyfloat \<Rightarrow> int \<Rightarrow> bool" where
  "float_lt_int (Finite q) t = (q < of_int t)"
| "float_lt_int PosInf t = False"
| "float_lt_int NegInf t = True"
| "float_lt_int NaN t = False"

fun py_lt_int :: "pyval \<Rightarrow> int \<Rightarrow> exn + bool" where
  "py_lt_int (PBool b) t = Inr ((if b then 1 else 0) < t)"
| "py_lt_int (PInt n) t = Inr (n < t)"
| "py_lt_int (PFloat x) t = Inr (float_lt_int x t)"
| "py_lt_int v t =
     Inl (Exn TypeError
       ([CHR 0x27] @ ''<'' @ [CHR 0x27] @ '' not supported between instances of '' @
        [CHR 0x27] @ type_name v @ [CHR 0x27] @ '' and '' @ [CHR 0x27] @ ''int'' @ [CHR 0x27]))"

text \<open>
  \<^verbatim>\<open>v[:k]\<close> for \<open>k \<ge> 0\<close>: a prefix of a list or of a string. A dict cannot be sliced
  (\<^verbatim>\<open>TypeError\<close>; \<^verbatim>\<open>KeyError\<close> from Python 3.12 on), the other values are not
  subscriptable.
\<close>

fun py_slice_to :: "pyval \<Rightarrow> nat \<Rightarrow> exn + pyval" where
  "py_slice_to (PList xs) k = Inr (PList (take k xs))"
| "py_slice_to (PStr s) k = Inr (PStr (take k s))"
| "py_slice_to (PDict d) k =
     Inl (Exn TypeError (''unhashable type: '' @ [CHR 0x27] @ ''slice'' @ [CHR 0x27]))"
| "py_slice_to v k =
     Inl (Exn TypeError
       ([CHR 0x27] @ type_name v @ [CHR 0x27] @ '' object is not subscriptable''))"

text \<open>\<^verbatim>\<open>response.choices[0]\<close>.\<close>

definition first_choice :: "completion \<Rightarrow> exn + choice" where
  "first_choice response =
     (case choices response of
        [] \<Rightarrow> Inl (Exn IndexError ''list index out of range'')
      | c # rest \<Rightarrow> Inr c)"

text \<open>
  The discriminator's call: what \<open>create\<close> does for the corrections and the original text
  that the prompt embeds. Building the prompt (\<^verbatim>\<open>json.dumps\<close> of decoded JSON values,
  \<^verbatim>\<open>str.format\<close> with the one field of the template) does not raise.
\<close>

type_synonym discriminator_call = "pyval list \<Rightarrow> string \<Rightarrow> call_outcome"

text \<open>
  \<^verbatim>\<open>validate_corrections\<close>. The body of the \<^verbatim>\<open>try\<close> is \<open>validate_try\<close>: the call, the
  decoding of the first choice's content, and the log line, which reads the two lists'
  lengths and the score. The handler catches every exception and returns the fallback
  dict.
\<close>

definition validate_try ::
  "json_decoder \<Rightarrow> discriminator_call \<Rightarrow> pyval list \<Rightarrow> string \<Rightarrow> exn + pyval" where
  "validate_try loads create corrections original_text =
     and_then (create corrections original_text) (\<lambda>response.
     and_then (first_choice response) (\<lambda>c.
     and_then (json_loads loads (content c)) (\<lambda>validation_result.
     and_then (py_get validation_result ''valid_corrections'' (PList [])) (\<lambda>valid.
     and_then (py_len valid) (\<lambda>n_valid.
     and_then (py_get validation_result ''rejected_corrections'' (PList [])) (\<lambda>rejected.
     and_then (py_len rejected) (\<lambda>n_rejected.
     and_then (py_get validation_result ''quality_score'' (PInt 0)) (\<lambda>score.
     Inr validation_result))))))))"

definition validation_fallback :: "pyval list \<Rightarrow> exn \<Rightarrow> pyval" where
  "validation_fallback corrections e =
     PDict [(''valid_corrections'', PList corrections),
            (''rejected_corrections'', PList []),
            (''quality_score'', PInt 50),
            (''summary'',
               PStr (''Validation failed: '' @ str_exn e @ ''. Returned all corrections.'')),
            (''error'', PStr (str_exn e))]"

definition validate_corrections ::
  "json_decoder \<Rightarrow> discriminator_call \<Rightarrow> pyval list \<Rightarrow> string \<Rightarrow> pyval" where
  "validate_corrections loads create corrections original_text =
     (case validate_try loads create corrections original_text of
        Inr validation_result \<Rightarrow> validation_result
      | Inl e \<Rightarrow> validation_fallback corrections e)"

text \<open>
  \<^verbatim>\<open>filter_corrections\<close>. The metadata is the dict literal of the source, its keys in
  the source's order. Nothing here is inside a \<^verbatim>\<open>try\<close>: an exception leaves the
  function.
\<close>

definition default_min_quality_score :: int where
  "default_min_quality_score = 70"

definition truncate_low_quality :: "pyval \<Rightarrow> exn + pyval" where
  "truncate_low_quality valid_corrections =
     and_then (py_len valid_corrections) (\<lambda>n.
     py_slice_to valid_corrections (max 1 (n div 2)))"

definition filter_corrections ::
  "json_decoder \<Rightarrow> discriminator_call \<Rightarrow> pyval list \<Rightarrow> string \<Rightarrow> int \<Rightarrow>
   exn + (pyval \<times> (string \<times> pyval) list)" where
  "filter_corrections loads create corrections original_text min_quality_score =
     (let validation_result = validate_corrections loads create corrections original_text in
      and_then (py_get validation_result ''valid_corrections'' (PList [])) (\<lambda>valid_corrections.
      and_then (py_get validation_result ''quality_score'' (PInt 0)) (\<lambda>quality_score.
      and_then (py_lt_int quality_score min_quality_score) (\<lambda>below.
      and_then (if below then truncate_low_quality valid_corrections
                else Inr valid_corrections) (\<lambda>valid_corrections.
      and_then (py_len valid_corrections) (\<lambda>filtered_count.
      and_then (py_get validation_result ''rejected_corrections'' (PList [])) (\<lambda>rejected.
      and_then (py_len rejected) (\<lambda>rejected_count.
      and_then (py_get validation_result ''summary'' (PStr [])) (\<lambda>summary.
      and_then (py_get validation_result ''rejected_corrections'' (PList [])) (\<lambda>rejected_reasons.
      Inr (valid_corrections,
           [(''discriminator_used'', PBool True),
            (''quality_score'', quality_score),
            (''original_count'', PInt (int (length corrections))),
            (''filtered_count'', PInt (int filtered_count)),
            (''rejected_count'', PInt (int rejected_count)),
            (''summary'', summary),
            (''rejected_reasons'', rejected_reasons)])))))))))))"

text \<open>
  \<^verbatim>\<open>batch_validate\<close>. \<open>creates i\<close> is the call as task \<open>i\<close> makes it. \<^verbatim>\<open>zip\<close> pairs
  batches and texts up to the shorter list; \<^verbatim>\<open>gather\<close> with \<^verbatim>\<open>return_exceptions=True\<close>
  gives each task's result or its exception, in the order of the tasks.
\<close>

definition batch_fallback :: "pyval list \<Rightarrow> exn \<Rightarrow> pyval \<times> (string \<times> pyval) list" where
  "batch_fallback batch e =
     (PList batch, [(''error'', PStr (str_exn e)), (''discriminator_used'', PBool False)])"

definition texts_or_empty :: "pyval list list \<Rightarrow> string list option \<Rightarrow> string list" where
  "texts_or_empty correction_batches original_texts =
     (case original_texts of
        None \<Rightarrow> replicate (length correction_batches) []
      | Some ts \<Rightarrow> ts)"

definition batch_validate ::
  "json_decoder \<Rightarrow> (nat \<Rightarrow> discriminator_call) \<Rightarrow> pyval list list \<Rightarrow>
   string list option \<Rightarrow> (pyval \<times> (string \<times> pyval) list) list" where
  "batch_validate loads creates correction_batches original_texts =
     (let texts = texts_or_empty correction_batches original_texts;
          tasks = zip correction_batches texts;
          results = map (\<lambda>(i, (corrections, text)).
                       filter_corrections loads (creates i) corrections text
                         default_min_quality_score)
                     (enumerate 0 tasks)
      in map (\<lambda>(i, result).
                case result of
                  Inl e \<Rightarrow> batch_fallback (correction_batches ! i) e
                | Inr r \<Rightarrow> r)
             (enumerate 0 results))"

section \<open>The web entry: \<^verbatim>\<open>process_sections\<close>\<close>

text \<open>
  The request body, the session table (token to user name and API key) and the two ways the
  handler can fail: an \<^verbatim>\<open>HTTPException\<close> it raises itself, or an exception that nothing in
  the handler catches. The handler's answer is the dict it returns.
\<close>

record process_sections_request =
  session_token :: string
  selected_titles :: "string list"
  text_for_corrections :: string
  requested_n_responses :: int
  selected_model :: string

datatype failure = HTTPException nat string | Unhandled exn

text \<open>\<^verbatim>\<open>str.strip()\<close>: the whitespace characters below 256.\<close>

definition whitespace_chars :: "char list" where
  "whitespace_chars =
     [CHR 0x09, CHR 0x0A, CHR 0x0B, CHR 0x0C, CHR 0x0D, CHR 0x1C, CHR 0x1D, CHR 0x1E,
      CHR 0x1F, CHR 0x20, CHR 0x85, CHR 0xA0]"

text \<open>
  The parameters of \<^verbatim>\<open>WordGrammarChecker.__init__\<close> after \<^verbatim>\<open>self\<close>. A call that passes
  a keyword that is none of them raises \<^verbatim>\<open>TypeError\<close> before the body runs.
\<close>

definition init_parameters :: "string list" where
  "init_parameters =
     [''api_key'', ''system_prompt'', ''max_concurrent_requests'', ''n_responses'',
      ''chosen_model'']"

definition unexpected_keyword :: "string list \<Rightarrow> exn + unit" where
  "unexpected_keyword keywords =
     (case filter (\<lambda>k. k \<notin> set init_parameters) keywords of
        [] \<Rightarrow> Inr ()
      | k # rest \<Rightarrow>
          Inl (Exn TypeError
            (''WordGrammarChecker.__init__() got an unexpected keyword argument '' @
             [CHR 0x27] @ k @ [CHR 0x27])))"

text \<open>
  The handler. The constructor is called with the key and the prompt by position and with
  the keywords \<^verbatim>\<open>n_responses\<close>, \<^verbatim>\<open>chosen_model\<close> and \<^verbatim>\<open>use_discriminator\<close>, outside the
  \<^verbatim>\<open>try\<close>; \<^verbatim>\<open>process_text\<close> runs inside it, and its exceptions become status 500. The
  system prompt is the module's constant, a parameter here.
\<close>

definition process_sections ::
  "json_decoder \<Rightarrow> (payload \<Rightarrow> nat \<Rightarrow> call_outcome) \<Rightarrow> string \<Rightarrow>
   (string \<rightharpoonup> string \<times> string) \<Rightarrow> process_sections_request \<Rightarrow>
   failure + pyval" where
  "process_sections loads create prompt sessions data =
     (case sessions (session_token data) of
        None \<Rightarrow> Inl (HTTPException 401 ''Not logged in'')
      | Some (username, key) \<Rightarrow>
          if selected_titles data = [] \<or>
             strip_chars whitespace_chars (text_for_corrections data) = []
          then Inl (HTTPException 400 ''No sections or text provided.'')
          else
            (case and_then
                    (unexpected_keyword [''n_responses'', ''chosen_model'', ''use_discriminator''])
                    (\<lambda>u. WordGrammarChecker_init key prompt default_max_concurrent_requests
                            (requested_n_responses data) (selected_model data)) of
               Inl e \<Rightarrow> Inl (Unhandled e)
             | Inr checker \<Rightarrow>
                 (case process_text loads create checker (text_for_corrections data) of
                    Inl e \<Rightarrow> Inl (HTTPException 500 (str_exn e))
                  | Inr (results_per_response, responses) \<Rightarrow>
                      Inr (PDict
                        [(''results'',
                          PList (map (\<lambda>(i, (corrs, sugg)).
                                        PDict [(''response_number'', PInt (int i)),
                                               (''corrections'', corrs),
                                               (''suggestion'', sugg)])
                                   (enumerate 1 results_per_response)))]))))"

section \<open>The concurrency gate\<close>

text \<open>
  \<^verbatim>\<open>make_api_call\<close> runs its call inside \<^verbatim>\<open>async with self.semaphore\<close>. A fan-out is the
  semaphore's counter and the state of each call that \<^verbatim>\<open>process_text\<close> has created: it
  waits for the semaphore, or it is in flight (it holds the semaphore and awaits the
  oracle), or it has left the semaphore with its result. A waiting call enters when the
  counter is positive and takes one from it; a call in flight finishes, whether the oracle
  returned or raised, and gives one back. Any interleaving of these steps is a run; the
  order in which the semaphore wakes waiting calls is not fixed here.
\<close>

datatype call_state = Waiting | InFlight | Finished "completion option"

record fan_out =
  permits :: nat
  calls :: "call_state list"

definition start :: "checker \<Rightarrow> fan_out" where
  "start self =
     \<lparr> permits = semaphore self, calls = replicate (nat (n_responses self)) Waiting \<rparr>"

definition can_enter :: "fan_out \<Rightarrow> nat \<Rightarrow> bool" where
  "can_enter s i = (i < length (calls s) \<and> calls s ! i = Waiting \<and> 0 < permits s)"

definition enter :: "fan_out \<Rightarrow> nat \<Rightarrow> fan_out" where
  "enter s i = \<lparr> permits = permits s - 1, calls = (calls s)[i := InFlight] \<rparr>"

definition can_leave :: "fan_out \<Rightarrow> nat \<Rightarrow> bool" where
  "can_leave s i = (i < length (calls s) \<and> calls s ! i = InFlight)"

definition leave :: "(nat \<Rightarrow> call_outcome) \<Rightarrow> fan_out \<Rightarrow> nat \<Rightarrow> fan_out" where
  "leave slot_outcome s i =
     \<lparr> permits = permits s + 1,
       calls = (calls s)[i := Finished (make_api_call (slot_outcome i))] \<rparr>"

inductive step :: "(nat \<Rightarrow> call_outcome) \<Rightarrow> fan_out \<Rightarrow> fan_out \<Rightarrow> bool"
  for slot_outcome :: "nat \<Rightarrow> call_outcome" where
  acquire: "can_enter s i \<Longrightarrow> step slot_outcome s (enter s i)"
| release: "can_leave s i \<Longrightarrow> step slot_outcome s (leave slot_outcome s i)"

inductive run :: "(nat \<Rightarrow> call_outcome) \<Rightarrow> checker \<Rightarrow> fan_out \<Rightarrow> bool"
  for slot_outcome :: "nat \<Rightarrow> call_outcome" and self :: checker where
  initial: "run slot_outcome self (start self)"
| next_step: "run slot_outcome self s \<Longrightarrow> step slot_outcome s s' \<Longrightarrow> run slot_outcome self s'"

definition in_flight :: "fan_out \<Rightarrow> nat" where
  "in_flight s = length (filter (\<lambda>c. c = InFlight) (calls s))"

text \<open>
  The join of \<^verbatim>\<open>asyncio.gather\<close>: when every call has left the semaphore, the results are
  read off in the order of the slots.
\<close>

fun result_of :: "call_state \<Rightarrow> completion option" where
  "result_of (Finished r) = r"
| "result_of c = None"

definition all_finished :: "fan_out \<Rightarrow> bool" where
  "all_finished s = list_all (\<lambda>c. c \<noteq> Waiting \<and> c \<noteq> InFlight) (calls s)"

section \<open>Sample inputs\<close>

text \<open>
  Concrete responses for the examples below. \<open>sample_loads\<close> is \<^verbatim>\<open>json.loads\<close> on the
  texts named here, among them one that is not JSON (\<open>prose_text\<close>) and one of 2000 opening
  brackets (\<open>deep_text\<close>, beyond the default recursion limit of 1000); it is applied to
  nothing else.
\<close>

definition correction :: "string \<Rightarrow> string \<Rightarrow> string \<Rightarrow> pyval" where
  "correction original explanation corrected =
     PDict [(''original_sentence'', PStr original),
            (''explanation'', PStr explanation),
            (''corrected_sentence'', PStr corrected)]"

definition flat_text :: string where
  \<open>flat_text = ''{"corrections": [{"original_sentence": "a", "explanation": "b", "corrected_sentence": "c"}], "suggestion": "ok"}''\<close>

definition nested_text :: string where
  \<open>nested_text = ''{"name": "my_schema", "type": "object", "properties": {"corrections": [{"original_sentence": "a", "explanation": "b", "corrected_sentence": "c"}], "suggestion": "ok"}}''\<close>

definition mismatch_text :: string where
  \<open>mismatch_text = ''{"properties": {"corrections": [{"note": "x"}], "suggestion": 7}}''\<close>

definition accept_text :: string where
  \<open>accept_text = ''{"valid_corrections": [{"original_sentence": "a", "explanation": "b", "corrected_sentence": "c"}], "rejected_corrections": [], "quality_score": 90, "summary": "good"}''\<close>

definition low_score_text :: string where
  \<open>low_score_text = ''{"valid_corrections": [{"original_sentence": "a", "explanation": "b", "corrected_sentence": "c"}, {"original_sentence": "d", "explanation": "e", "corrected_sentence": "f"}, {"original_sentence": "g", "explanation": "h", "corrected_sentence": "i"}], "rejected_corrections": [], "quality_score": 40, "summary": "weak"}''\<close>

definition reject_all_text :: string where
  \<open>reject_all_text = ''{"valid_corrections": [], "rejected_corrections": [{"correction": {"original_sentence": "a", "explanation": "b", "corrected_sentence": "c"}, "reason": "not an error"}], "quality_score": 40, "summary": "weak"}''\<close>

definition over_score_text :: string where
  \<open>over_score_text = ''{"valid_corrections": [{"original_sentence": "a", "explanation": "b", "corrected_sentence": "c"}], "rejected_corrections": [], "quality_score": 150, "summary": "good"}''\<close>

definition word_score_text :: string where
  \<open>word_score_text = ''{"valid_corrections": [{"original_sentence": "d", "explanation": "e", "corrected_sentence": "f"}], "rejected_corrections": [], "quality_score": "high", "summary": "good"}''\<close>

definition prose_text :: string where
  "prose_text = ''Sorry, no.''"

definition deep_text :: string where
  "deep_text = replicate 2000 (CHR ''['')"

definition flat_value :: pyval where
  "flat_value =
     PDict [(''corrections'', PList [correction ''a'' ''b'' ''c'']),
            (''suggestion'', PStr ''ok'')]"

definition nested_value :: pyval where
  "nested_value =
     PDict [(''name'', PStr ''my_schema''),
            (''type'', PStr ''object''),
            (''properties'', PDict [(''corrections'', PList [correction ''a'' ''b'' ''c'']),
                                   (''suggestion'', PStr ''ok'')])]"

definition mismatch_value :: pyval where
  "mismatch_value =
     PDict [(''properties'', PDict [(''corrections'', PList [PDict [(''note'', PStr ''x'')]]),
                                   (''suggestion'', PInt 7)])]"

definition accept_value :: pyval where
  "accept_value =
     PDict [(''valid_corrections'', PList [correction ''a'' ''b'' ''c'']),
            (''rejected_corrections'', PList []),
            (''quality_score'', PInt 90),
            (''summary'', PStr ''good'')]"

definition low_score_value :: pyval where
  "low_score_value =
     PDict [(''valid_corrections'', PList [correction ''a'' ''b'' ''c'', correction ''d'' ''e'' ''f'', correction ''g'' ''h'' ''i'']),
            (''rejected_corrections'', PList []),
            (''quality_score'', PInt 40),
            (''summary'', PStr ''weak'')]"

definition reject_all_value :: pyval where
  "reject_all_value =
     PDict [(''valid_corrections'', PList []),
            (''rejected_corrections'', PList [PDict [(''correction'', correction ''a'' ''b'' ''c''),
                                             (''reason'', PStr ''not an error'')]]),
            (''quality_score'', PInt 40),
            (''summary'', PStr ''weak'')]"

definition over_score_value :: pyval where
  "over_score_value =
     PDict [(''valid_corrections'', PList [correction ''a'' ''b'' ''c'']),
            (''rejected_corrections'', PList []),
            (''quality_score'', PInt 150),
            (''summary'', PStr ''good'')]"

definition word_score_value :: pyval where
  "word_score_value =
     PDict [(''valid_corrections'', PList [correction ''d'' ''e'' ''f'']),
            (''rejected_corrections'', PList []),
            (''quality_score'', PStr ''high''),
            (''summary'', PStr ''good'')]"

definition sample_loads :: json_decoder where
  "sample_loads s =
     (if s = flat_text then Inr flat_value
      else if s = nested_text then Inr nested_value
      else if s = mismatch_text then Inr mismatch_value
      else if s = accept_text then Inr accept_value
      else if s = low_score_text then Inr low_score_value
      else if s = reject_all_text then Inr reject_all_value
      else if s = over_score_text then Inr over_score_value
      else if s = word_score_text then Inr word_score_value
      else if s = deep_text then
        Inl (Exn RecursionError
          ''maximum recursion depth exceeded while decoding a JSON array from a unicode string'')
      else Inl (Exn JSONDecodeError ''Expecting value: line 1 column 1 (char 0)''))"

definition reply :: "string option \<Rightarrow> completion" where
  "reply c = \<lparr> choices = [\<lparr> content = c \<rparr>] \<rparr>"

definition sample_checker :: checker where
  "sample_checker =
     \<lparr> api_key = ''sk-test'', system_prompt = ''Korjaa.'', max_concurrent_requests = 5,
       semaphore = 5, n_responses = 5, text_data = [], chosen_model = ''fast'',
       client = ''sk-test'' \<rparr>"

text \<open>A fan-out of five calls in which the calls of slots 1 and 3 fail.\<close>

definition flaky_call :: "payload \<Rightarrow> nat \<Rightarrow> call_outcome" where
  "flaky_call p i =
     (if i = 0 then Inr (reply (Some nested_text))
      else if i = 2 then Inr (reply (Some flat_text))
      else if i = 4 then Inr (reply (Some mismatch_text))
      else Inl (Exn OracleError ''Connection error.''))"

text \<open>
  A raw response that is absent, has no choices, or whose content is text on which
  \<^verbatim>\<open>json.loads\<close> raises \<^verbatim>\<open>JSONDecodeError\<close>.
\<close>

definition undecodable :: "json_decoder \<Rightarrow> completion option \<Rightarrow> bool" where
  "undecodable loads response_model =
     (case response_model of
        None \<Rightarrow> True
      | Some resp \<Rightarrow>
          (case choices resp of
             [] \<Rightarrow> True
           | c # rest \<Rightarrow>
               (case content c of
                  None \<Rightarrow> False
                | Some s \<Rightarrow>
                    (case loads s of
                       Inl e \<Rightarrow> kind_of e = JSONDecodeError
                     | Inr v \<Rightarrow> False))))"

text \<open>Discriminator calls: one that raises, and one that answers with a given text.\<close>

definition failing_call :: discriminator_call where
  "failing_call corrections original_text = Inl (Exn OracleError ''Connection error.'')"

definition answering :: "string \<Rightarrow> discriminator_call" where
  "answering s corrections original_text = Inr (reply (Some s))"


definition four_corrections :: "pyval list" where
  "four_corrections =
     [correction ''a'' ''b'' ''c'', correction ''d'' ''e'' ''f'',
      correction ''g'' ''h'' ''i'', correction ''j'' ''k'' ''l'']"

text \<open>
  Two batches of which the second meets a discriminator call that raises, and three batches
  of which the second gets an answer whose score is a word and the third meets a call that
  raises.
\<close>

definition two_batches :: "pyval list list" where
  "two_batches = [[correction ''a'' ''b'' ''c''], [correction ''d'' ''e'' ''f'']]"

definition failing_second :: "nat \<Rightarrow> discriminator_call" where
  "failing_second i = (if i = 0 then answering accept_text else failing_call)"

definition three_batches :: "pyval list list" where
  "three_batches =
     [[correction ''a'' ''b'' ''c''], [correction ''d'' ''e'' ''f''],
      [correction ''g'' ''h'' ''i'']]"

definition three_batch_calls :: "nat \<Rightarrow> discriminator_call" where
  "three_batch_calls i =
     (if i = 0 then answering accept_text
      else if i = 1 then answering word_score_text
      else failing_call)"

text \<open>A score is in range when it is an integer from 0 to 100.\<close>

definition score_in_range :: "pyval \<Rightarrow> bool" where
  "score_in_range v = (case v of PInt n \<Rightarrow> 0 \<le> n \<and> n \<le> 100 | _ \<Rightarrow> False)"

text \<open>
  Checkers as the constructor builds them: one with a variant that is no preset, one with
  the slow preset, and one with a concurrency limit of 2 for three calls, together with the
  state of its fan-out in which the first two calls are in flight.
\<close>

definition turbo_checker :: checker where
  "turbo_checker =
     \<lparr> api_key = ''sk-test'', system_prompt = ''Korjaa.'', max_concurrent_requests = 5,
       semaphore = 5, n_responses = 1, text_data = [], chosen_model = ''turbo'',
       client = ''sk-test'' \<rparr>"

definition slow_checker :: checker where
  "slow_checker =
     \<lparr> api_key = ''sk-test'', system_prompt = ''Korjaa.'', max_concurrent_requests = 5,
       semaphore = 5, n_responses = 1, text_data = [], chosen_model = ''slow'',
       client = ''sk-test'' \<rparr>"

definition gate_checker :: checker where
  "gate_checker =
     \<lparr> api_key = ''sk-test'', system_prompt = ''Korjaa.'', max_concurrent_requests = 2,
       semaphore = 2, n_responses = 3, text_data = [], chosen_model = ''fast'',
       client = ''sk-test'' \<rparr>"

definition two_in_flight :: fan_out where
  "two_in_flight = \<lparr> permits = 0, calls = [InFlight, InFlight, Waiting] \<rparr>"

text \<open>A logged-in request to \<^verbatim>\<open>process_sections\<close>.\<close>

definition sample_sessions :: "string \<rightharpoonup> string \<times> string" where
  "sample_sessions = [''token-1'' \<mapsto> (''AIBooks1'', ''sk-test'')]"

definition sample_request :: process_sections_request where
  "sample_request =
     \<lparr> session_token = ''token-1'', selected_titles = [''Test''],
       text_for_corrections = ''Kissa on mustaa.'', requested_n_responses = 1,
       selected_model = ''fast'' \<rparr>"

section \<open>Evaluation of the sample inputs\<close>

lemmas sample_texts =
  flat_text_def nested_text_def mismatch_text_def accept_text_def low_score_text_def
  reject_all_text_def over_score_text_def word_score_text_def prose_text_def

lemma upt5: "[0..<5] = [0, 1, 2, 3, 4::nat]"
  by code_simp

lemma shorter_not_deep: "length s < 2000 \<Longrightarrow> s \<noteq> deep_text"
  by (auto simp: deep_text_def)

lemma sample_loads_simps:
  "sample_loads flat_text = Inr flat_value"
  "sample_loads nested_text = Inr nested_value"
  "sample_loads mismatch_text = Inr mismatch_value"
  "sample_loads accept_text = Inr accept_value"
  "sample_loads low_score_text = Inr low_score_value"
  "sample_loads reject_all_text = Inr reject_all_value"
  "sample_loads over_score_text = Inr over_score_value"
  "sample_loads word_score_text = Inr word_score_value"
  "sample_loads prose_text =
     Inl (Exn JSONDecodeError ''Expecting value: line 1 column 1 (char 0)'')"
  by (simp_all add: sample_loads_def sample_texts shorter_not_deep)

lemma sample_loads_deep:
  "sample_loads deep_text =
     Inl (Exn RecursionError
       ''maximum recursion depth exceeded while decoding a JSON array from a unicode string'')"
proof -
  have "flat_text \<noteq> deep_text" "nested_text \<noteq> deep_text" "mismatch_text \<noteq> deep_text"
    "accept_text \<noteq> deep_text" "low_score_text \<noteq> deep_text" "reject_all_text \<noteq> deep_text"
    "over_score_text \<noteq> deep_text" "word_score_text \<noteq> deep_text"
    by (simp_all add: shorter_not_deep sample_texts)
  then have "deep_text \<noteq> flat_text" "deep_text \<noteq> nested_text" "deep_text \<noteq> mismatch_text"
    "deep_text \<noteq> accept_text" "deep_text \<noteq> low_score_text" "deep_text \<noteq> reject_all_text"
    "deep_text \<noteq> over_score_text" "deep_text \<noteq> word_score_text"
    by (simp_all add: neq_commute)
  then show ?thesis by (simp add: sample_loads_def)
qed

lemma extract_samples:
  "extract_corrections sample_loads (Some (reply (Some nested_text))) =
     Inr (PList [correction ''a'' ''b'' ''c''], PStr ''ok'')"
  "extract_corrections sample_loads (Some (reply (Some flat_text))) = Inr (PList [], PStr [])"
  "extract_corrections sample_loads (Some (reply (Some mismatch_text))) =
     Inr (PList [PDict [(''note'', PStr ''x'')]], PInt 7)"
  by (simp_all add: extract_corrections_def extract_try_def json_loads_def reply_def
        sample_loads_simps dict_get_def flat_value_def nested_value_def mismatch_value_def)

lemma flaky_arrived:
  "arrived (gather_calls (flaky_call p) 5) =
     [reply (Some nested_text), reply (Some flat_text), reply (Some mismatch_text)]"
  by (simp add: arrived_def gather_calls_def upt5 flaky_call_def make_api_call_def)

section \<open>ResponseExtractor: \<^verbatim>\<open>extract_corrections\<close>\<close>

lemma extract_try_raises:
  "loads s = Inl e \<Longrightarrow> extract_try loads (Some s) = Inl e"
  by (simp add: extract_try_def json_loads_def)

text \<open>
  The handler's gap: an exception of \<^verbatim>\<open>json.loads\<close> that is no \<^verbatim>\<open>JSONDecodeError\<close>
  leaves \<^verbatim>\<open>extract_corrections\<close>, as does the \<^verbatim>\<open>TypeError\<close> for a message without
  content. The text of 2000 opening brackets is an example.
\<close>

lemma extract_corrections_lets_escape:
  assumes "choices resp = c # rest" and "content c = Some s" and "loads s = Inl e"
    and "kind_of e \<noteq> JSONDecodeError"
  shows "extract_corrections loads (Some resp) = Inl e"
  using assms by (simp add: extract_corrections_def extract_try_raises)

lemma extract_corrections_deep_text:
  "extract_corrections sample_loads (Some (reply (Some deep_text))) =
     Inl (Exn RecursionError
       ''maximum recursion depth exceeded while decoding a JSON array from a unicode string'')"
  by (rule extract_corrections_lets_escape
            [where c = "\<lparr> content = Some deep_text \<rparr>" and rest = "[]" and s = deep_text])
     (simp_all add: reply_def sample_loads_deep)

lemma extract_corrections_no_content:
  "extract_corrections loads (Some (reply None)) =
     Inl (Exn TypeError ''the JSON object must be str, bytes or bytearray, not NoneType'')"
  by (simp add: extract_corrections_def extract_try_def json_loads_def reply_def)

text \<open>
  Claim C4, as the code has it. For every raw response that is absent, has no choices, or
  whose message content is text on which \<^verbatim>\<open>json.loads\<close> raises \<^verbatim>\<open>JSONDecodeError\<close>,
  \<^verbatim>\<open>extract_corrections\<close> returns \<^verbatim>\<open>([], "")\<close> and raises nothing. Content that decodes
  to an object is not checked against the corrections/suggestion schema: when the object
  has no \<^verbatim>\<open>properties\<close> or an object under it, the result is what that object holds under
  \<^verbatim>\<open>corrections\<close> and \<^verbatim>\<open>suggestion\<close>, of whatever shape, with the defaults \<^verbatim>\<open>[]\<close> and
  \<^verbatim>\<open>""\<close> for a missing key.
\<close>

theorem extract_corrections_soft_failure:
  "(undecodable loads response_model \<longrightarrow>
      extract_corrections loads response_model = Inr (PList [], PStr [])) \<and>
   (choices resp = c # rest \<and> content c = Some s \<and> loads s = Inr (PDict d) \<and>
    dict_get d ''properties'' (PDict []) = PDict props \<longrightarrow>
      extract_corrections loads (Some resp) =
        Inr (dict_get props ''corrections'' (PList []),
             dict_get props ''suggestion'' (PStr [])))"
proof (intro conjI impI)
  assume "undecodable loads response_model"
  then show "extract_corrections loads response_model = Inr (PList [], PStr [])"
    by (auto simp: undecodable_def extract_corrections_def extract_try_raises
             split: option.splits list.splits sum.splits)
next
  assume "choices resp = c # rest \<and> content c = Some s \<and> loads s = Inr (PDict d) \<and>
          dict_get d ''properties'' (PDict []) = PDict props"
  then show "extract_corrections loads (Some resp) =
        Inr (dict_get props ''corrections'' (PList []),
             dict_get props ''suggestion'' (PStr []))"
    by (simp add: extract_corrections_def extract_try_def json_loads_def)
qed

theorem extract_corrections_soft_failure_witness:
  "undecodable sample_loads (Some (reply (Some prose_text))) \<and>
   extract_corrections sample_loads (Some (reply (Some prose_text))) =
     Inr (PList [], PStr []) \<and>
   sample_loads nested_text = Inr nested_value \<and>
   extract_corrections sample_loads (Some (reply (Some nested_text))) =
     Inr (PList [correction ''a'' ''b'' ''c''], PStr ''ok'')"
proof -
  let ?props = "[(''corrections'', PList [correction ''a'' ''b'' ''c'']),
                 (''suggestion'', PStr ''ok'')]"
  let ?d = "[(''name'', PStr ''my_schema''), (''type'', PStr ''object''),
             (''properties'', PDict ?props)]"
  have h1: "undecodable sample_loads (Some (reply (Some prose_text)))"
    by (simp add: undecodable_def reply_def sample_loads_simps)
  have h2: "choices (reply (Some nested_text)) = \<lparr> content = Some nested_text \<rparr> # [] \<and>
            content \<lparr> content = Some nested_text \<rparr> = Some nested_text \<and>
            sample_loads nested_text = Inr (PDict ?d) \<and>
            dict_get ?d ''properties'' (PDict []) = PDict ?props"
    by (simp add: reply_def sample_loads_simps nested_value_def dict_get_def)
  have a: "extract_corrections sample_loads (Some (reply (Some prose_text))) =
             Inr (PList [], PStr [])"
    using h1
      extract_corrections_soft_failure
        [where loads = sample_loads and response_model = "Some (reply (Some prose_text))"]
    by simp
  have b: "extract_corrections sample_loads (Some (reply (Some nested_text))) =
             Inr (PList [correction ''a'' ''b'' ''c''], PStr ''ok'')"
    using h2
      extract_corrections_soft_failure
        [where loads = sample_loads and resp = "reply (Some nested_text)"
           and c = "\<lparr> content = Some nested_text \<rparr>" and rest = "[]" and s = nested_text
           and d = ?d and props = ?props]
    by (simp add: dict_get_def)
  show ?thesis using h1 a b by (simp add: sample_loads_simps)
qed

text \<open>
  Claim C4 as stated fails: the content
  \<^verbatim>\<open>{"properties": {"corrections": [{"note": "x"}], "suggestion": 7}}\<close> is JSON that does
  not match the schema (the correction has none of the three fields and one that is not
  allowed, the suggestion is a number), and it is returned as it is.
\<close>

theorem extract_corrections_schema_counterexample:
  "extract_corrections sample_loads (Some (reply (Some mismatch_text))) =
     Inr (PList [PDict [(''note'', PStr ''x'')]], PInt 7) \<and>
   extract_corrections sample_loads (Some (reply (Some mismatch_text))) \<noteq>
     Inr (PList [], PStr [])"
  by (simp add: extract_samples)

text \<open>
  Claim C10. When the content of the first choice decodes to a JSON object \<open>d\<close>, the result
  is read under the key \<^verbatim>\<open>properties\<close> of \<open>d\<close> and nowhere else: without that key the
  result is \<^verbatim>\<open>([], "")\<close>, whatever else \<open>d\<close> holds; with an object under it, the result is
  that object's \<^verbatim>\<open>corrections\<close> and \<^verbatim>\<open>suggestion\<close>, each with its default. A value under
  \<^verbatim>\<open>properties\<close> that is not an object has no \<^verbatim>\<open>get\<close>, and the call raises.
\<close>

theorem extract_corrections_properties_key:
  assumes "choices resp = c # rest" and "content c = Some s" and "loads s = Inr (PDict d)"
  shows "extract_corrections loads (Some resp) =
           (case map_of d ''properties'' of
              None \<Rightarrow> Inr (PList [], PStr [])
            | Some (PDict props) \<Rightarrow>
                Inr (dict_get props ''corrections'' (PList []),
                     dict_get props ''suggestion'' (PStr []))
            | Some v \<Rightarrow> Inl (no_get_method v))"
  using assms
  by (auto simp: extract_corrections_def extract_try_def json_loads_def dict_get_def
        no_get_method_def split: option.splits pyval.splits)

theorem extract_corrections_properties_key_witness:
  "choices (reply (Some flat_text)) = \<lparr> content = Some flat_text \<rparr> # [] \<and>
   content \<lparr> content = Some flat_text \<rparr> = Some flat_text \<and>
   sample_loads flat_text =
     Inr (PDict [(''corrections'', PList [correction ''a'' ''b'' ''c'']),
                 (''suggestion'', PStr ''ok'')]) \<and>
   extract_corrections sample_loads (Some (reply (Some flat_text))) = Inr (PList [], PStr [])"
proof -
  have h1: "choices (reply (Some flat_text)) = \<lparr> content = Some flat_text \<rparr> # []"
    by (simp add: reply_def)
  have h2: "content \<lparr> content = Some flat_text \<rparr> = Some flat_text" by simp
  have h3: "sample_loads flat_text =
     Inr (PDict [(''corrections'', PList [correction ''a'' ''b'' ''c'']),
                 (''suggestion'', PStr ''ok'')])"
    by (simp add: sample_loads_simps flat_value_def)
  show ?thesis
    using h1 h2 h3
      extract_corrections_properties_key
        [where loads = sample_loads and resp = "reply (Some flat_text)"
           and c = "\<lparr> content = Some flat_text \<rparr>" and rest = "[]" and s = flat_text,
         OF h1 h2 h3]
    by simp
qed

section \<open>PipelineController: \<^verbatim>\<open>process_text\<close>\<close>

lemma extract_all_Inr:
  "extract_all loads rs = Inr xs \<Longrightarrow>
   map Inr xs = map (\<lambda>r. extract_corrections loads (Some r)) rs"
proof (induction rs arbitrary: xs)
  case Nil
  then show ?case by simp
next
  case (Cons r rs)
  then show ?case
    by (cases "extract_corrections loads (Some r)"; cases "extract_all loads rs") auto
qed

lemma extract_all_Inl:
  "extract_all loads rs = Inl e \<Longrightarrow>
   \<exists>r \<in> set rs. extract_corrections loads (Some r) = Inl e"
proof (induction rs)
  case Nil
  then show ?case by simp
next
  case (Cons r rs)
  then show ?case
    by (cases "extract_corrections loads (Some r)"; cases "extract_all loads rs") auto
qed

lemma arrived_gather_calls:
  "arrived (gather_calls f n) = map (\<lambda>i. projr (f i)) (filter (\<lambda>i. \<not> isl (f i)) [0..<nat n])"
proof -
  have "map the (filter (\<lambda>r. r \<noteq> None) (map (\<lambda>i. make_api_call (f i)) is)) =
        map (\<lambda>i. projr (f i)) (filter (\<lambda>i. \<not> isl (f i)) is)" for "is"
    by (induction "is") (auto simp: make_api_call_def split: sum.splits)
  then show ?thesis by (simp add: arrived_def gather_calls_def)
qed

lemma length_arrived_gather_calls:
  "length (arrived (gather_calls f n)) \<le> nat n"
proof -
  have "length (filter (\<lambda>i. \<not> isl (f i)) [0..<nat n]) \<le> length [0..<nat n]"
    by (rule length_filter_le)
  then show ?thesis by (simp add: arrived_gather_calls)
qed

text \<open>
  Claim C5. For a requested count of at least 1, \<^verbatim>\<open>process_text\<close> either returns or
  raises the exception of an extraction. When it returns, the result list is no longer than
  the requested count, the responses are those of the slots whose call returned, in the
  order of submission (a failed slot leaves no entry), and the results are the extractions
  of these responses in the same order. In the example five calls are requested, those of
  slots 1 and 3 fail, and the result holds the extractions of slots 0, 2 and 4 in this order.
\<close>

theorem process_text_drops_failed_slots:
  assumes "1 \<le> n_responses self"
  shows "case process_text loads create self t of
           Inr (results, responses) \<Rightarrow>
             int (length results) \<le> n_responses self \<and>
             responses = map (slot_response create self t) (succeeded_slots create self t) \<and>
             map Inr results = map (\<lambda>r. extract_corrections loads (Some r)) responses
         | Inl e \<Rightarrow>
             (\<exists>i \<in> set (succeeded_slots create self t).
                extract_corrections loads (Some (slot_response create self t i)) = Inl e)"
proof -
  define p where "p = create_payload (self\<lparr>text_data := t\<rparr>)"
  define rs where "rs = arrived (gather_calls (create p) (n_responses self))"
  have rs_eq: "rs = map (slot_response create self t) (succeeded_slots create self t)"
    by (simp add: rs_def p_def arrived_gather_calls slot_response_def succeeded_slots_def)
  have len: "int (length rs) \<le> n_responses self"
    using length_arrived_gather_calls [of "create p" "n_responses self"] assms
    by (simp add: rs_def)
  have pt: "process_text loads create self t =
        (if rs = [] then Inr ([], rs)
         else and_then (extract_all loads rs) (\<lambda>res. Inr (res, rs)))"
    by (simp add: process_text_def Let_def rs_def p_def)
  show ?thesis
  proof (cases "extract_all loads rs")
    case (Inl e)
    then have "rs \<noteq> []" by auto
    moreover from Inl obtain r where "r \<in> set rs" "extract_corrections loads (Some r) = Inl e"
      using extract_all_Inl by blast
    ultimately show ?thesis using Inl pt rs_eq by auto
  next
    case (Inr xs)
    then have m: "map Inr xs = map (\<lambda>r. extract_corrections loads (Some r)) rs"
      by (rule extract_all_Inr)
    then have "length xs = length rs" by (metis length_map)
    with len m Inr pt rs_eq show ?thesis by (cases "rs = []") auto
  qed
qed

theorem process_text_drops_failed_slots_witness:
  "1 \<le> n_responses sample_checker \<and>
   process_text sample_loads flaky_call sample_checker ''Kissa on mustaa.'' =
     Inr ([(PList [correction ''a'' ''b'' ''c''], PStr ''ok''),
           (PList [], PStr []),
           (PList [PDict [(''note'', PStr ''x'')]], PInt 7)],
          [reply (Some nested_text), reply (Some flat_text), reply (Some mismatch_text)]) \<and>
   succeeded_slots flaky_call sample_checker ''Kissa on mustaa.'' = [0, 2, 4]"
proof -
  have h: "1 \<le> n_responses sample_checker" by (simp add: sample_checker_def)
  have n: "n_responses sample_checker = 5" by (simp add: sample_checker_def)
  have e: "process_text sample_loads flaky_call sample_checker ''Kissa on mustaa.'' =
     Inr ([(PList [correction ''a'' ''b'' ''c''], PStr ''ok''),
           (PList [], PStr []),
           (PList [PDict [(''note'', PStr ''x'')]], PInt 7)],
          [reply (Some nested_text), reply (Some flat_text), reply (Some mismatch_text)])"
    by (simp add: process_text_def Let_def n flaky_arrived extract_samples)
  have s: "succeeded_slots flaky_call sample_checker ''Kissa on mustaa.'' = [0, 2, 4]"
    by (simp add: succeeded_slots_def n upt5 flaky_call_def)
  show ?thesis
    using h e s
      process_text_drops_failed_slots
        [where self = sample_checker and loads = sample_loads and create = flaky_call
           and t = "''Kissa on mustaa.''", OF h]
    by simp
qed

section \<open>ValidationFilter: \<^verbatim>\<open>filter_corrections\<close> and \<^verbatim>\<open>batch_validate\<close>\<close>

lemma and_then_Inr_iff:
  "and_then m f = Inr y \<longleftrightarrow> (\<exists>x. m = Inr x \<and> f x = Inr y)"
  by (cases m) auto

lemma and_then_Inl_iff:
  "and_then m f = Inl e \<longleftrightarrow> (m = Inl e \<or> (\<exists>x. m = Inr x \<and> f x = Inl e))"
  by (cases m) auto

lemma py_get_Inr_iff: "py_get v k dflt = Inr x \<longleftrightarrow> (\<exists>d. v = PDict d \<and> x = dict_get d k dflt)"
  by (cases v) auto

lemma validate_try_sized:
  assumes "validate_try loads create cs text = Inr v"
  shows "\<exists>d n m. v = PDict d \<and>
           py_len (dict_get d ''valid_corrections'' (PList [])) = Inr n \<and>
           py_len (dict_get d ''rejected_corrections'' (PList [])) = Inr m"
  using assms by (auto simp: validate_try_def and_then_Inr_iff py_get_Inr_iff)

lemma filter_corrections_after_failure:
  assumes "validate_try loads create cs text = Inl e"
  shows "filter_corrections loads create cs text t =
           Inr (PList (if 50 < t then take (max 1 (length cs div 2)) cs else cs),
                [(''discriminator_used'', PBool True),
                 (''quality_score'', PInt 50),
                 (''original_count'', PInt (int (length cs))),
                 (''filtered_count'',
                    PInt (int (length (if 50 < t then take (max 1 (length cs div 2)) cs
                                       else cs)))),
                 (''rejected_count'', PInt 0),
                 (''summary'',
                    PStr (''Validation failed: '' @ str_exn e @
                          ''. Returned all corrections.'')),
                 (''rejected_reasons'', PList [])])"
  using assms
  by (simp add: filter_corrections_def validate_corrections_def validation_fallback_def
        dict_get_def truncate_low_quality_def)

lemma failing_call_fails:
  "validate_try loads failing_call cs text = Inl (Exn OracleError ''Connection error.'')"
  by (simp add: validate_try_def failing_call_def)

lemma validate_try_answering:
  "sample_loads s = Inr (PDict d) \<Longrightarrow>
   py_len (dict_get d ''valid_corrections'' (PList [])) = Inr n \<Longrightarrow>
   py_len (dict_get d ''rejected_corrections'' (PList [])) = Inr m \<Longrightarrow>
   validate_try sample_loads (answering s) cs text = Inr (PDict d)"
  by (simp add: validate_try_def answering_def first_choice_def reply_def json_loads_def)

lemma validate_try_samples:
  "validate_try sample_loads (answering accept_text) cs text = Inr accept_value"
  "validate_try sample_loads (answering low_score_text) cs text = Inr low_score_value"
  "validate_try sample_loads (answering reject_all_text) cs text = Inr reject_all_value"
  "validate_try sample_loads (answering over_score_text) cs text = Inr over_score_value"
  "validate_try sample_loads (answering word_score_text) cs text = Inr word_score_value"
  by (simp_all add: validate_try_def answering_def first_choice_def reply_def json_loads_def
        sample_loads_simps accept_value_def low_score_value_def reject_all_value_def
        over_score_value_def word_score_value_def dict_get_def)

lemma filter_corrections_samples:
  "filter_corrections sample_loads (answering low_score_text) cs text 70 =
     Inr (PList [correction ''a'' ''b'' ''c''],
          [(''discriminator_used'', PBool True),
           (''quality_score'', PInt 40),
           (''original_count'', PInt (int (length cs))),
           (''filtered_count'', PInt 1),
           (''rejected_count'', PInt 0),
           (''summary'', PStr ''weak''),
           (''rejected_reasons'', PList [])])"
  "filter_corrections sample_loads (answering accept_text) cs text 70 =
     Inr (PList [correction ''a'' ''b'' ''c''],
          [(''discriminator_used'', PBool True),
           (''quality_score'', PInt 90),
           (''original_count'', PInt (int (length cs))),
           (''filtered_count'', PInt 1),
           (''rejected_count'', PInt 0),
           (''summary'', PStr ''good''),
           (''rejected_reasons'', PList [])])"
  "filter_corrections sample_loads (answering reject_all_text) cs text 70 =
     Inr (PList [],
          [(''discriminator_used'', PBool True),
           (''quality_score'', PInt 40),
           (''original_count'', PInt (int (length cs))),
           (''filtered_count'', PInt 0),
           (''rejected_count'', PInt 1),
           (''summary'', PStr ''weak''),
           (''rejected_reasons'',
              PList [PDict [(''correction'', correction ''a'' ''b'' ''c''),
                            (''reason'', PStr ''not an error'')]])])"
  "filter_corrections sample_loads (answering over_score_text) cs text 70 =
     Inr (PList [correction ''a'' ''b'' ''c''],
          [(''discriminator_used'', PBool True),
           (''quality_score'', PInt 150),
           (''original_count'', PInt (int (length cs))),
           (''filtered_count'', PInt 1),
           (''rejected_count'', PInt 0),
           (''summary'', PStr ''good''),
           (''rejected_reasons'', PList [])])"
  "filter_corrections sample_loads (answering word_score_text) cs text 70 =
     Inl (Exn TypeError
       ([CHR 0x27] @ ''<'' @ [CHR 0x27] @ '' not supported between instances of '' @
        [CHR 0x27] @ ''str'' @ [CHR 0x27] @ '' and '' @ [CHR 0x27] @ ''int'' @ [CHR 0x27]))"
  by (simp_all add: filter_corrections_def validate_corrections_def validate_try_samples
        accept_value_def low_score_value_def reject_all_value_def
        over_score_value_def word_score_value_def dict_get_def truncate_low_quality_def)

text \<open>
  Claim C2 at its failing input. The discriminator's call raises on four corrections and the
  threshold is the default 70. \<^verbatim>\<open>validate_corrections\<close> falls back to all four
  corrections with score 50, and \<^verbatim>\<open>filter_corrections\<close> then finds 50 below 70 and keeps
  the first two: the result is not the original four, although the summary says that all
  corrections were returned.
\<close>

theorem filter_corrections_failure_truncates:
  "filter_corrections sample_loads failing_call four_corrections ''Kissa on mustaa.''
     default_min_quality_score =
   Inr (PList [correction ''a'' ''b'' ''c'', correction ''d'' ''e'' ''f''],
        [(''discriminator_used'', PBool True),
         (''quality_score'', PInt 50),
         (''original_count'', PInt 4),
         (''filtered_count'', PInt 2),
         (''rejected_count'', PInt 0),
         (''summary'',
            PStr ''Validation failed: Connection error.. Returned all corrections.''),
         (''rejected_reasons'', PList [])])"
  by (simp add: filter_corrections_after_failure [OF failing_call_fails]
        default_min_quality_score_def four_corrections_def)




lemma py_slice_to_sized:
  "py_len v = Inr n \<Longrightarrow>
   (\<exists>w m. py_slice_to v k = Inr w \<and> py_len w = Inr m) \<or>
   (\<exists>kv e. v = PDict kv \<and> py_slice_to v k = Inl e)"
  by (cases v) auto

text \<open>
  Claim C9, as the code has it. The score in the metadata is the discriminator's own value,
  passed through without clamping or type check: 50 when the discriminator's call or the
  reading of its answer fails, 0 when the answer has no \<^verbatim>\<open>quality_score\<close>, and otherwise
  the answer's \<^verbatim>\<open>quality_score\<close> as it is. It is an integer from 0 to 100 exactly when
  that value is one. \<^verbatim>\<open>filter_corrections\<close> raises, and reports nothing, only when that
  value cannot be compared with the threshold, or when it is below the threshold and the
  answer's valid corrections are an object, which cannot be sliced.
\<close>

theorem quality_score_passed_through:
  "let q = (case validate_try loads create cs text of
              Inl e \<Rightarrow> PInt 50
            | Inr v \<Rightarrow>
                (case v of
                   PDict d \<Rightarrow> (case map_of d ''quality_score'' of None \<Rightarrow> PInt 0 | Some x \<Rightarrow> x)
                 | _ \<Rightarrow> PNone))
   in case filter_corrections loads create cs text t of
        Inr (valid, meta) \<Rightarrow>
          map_of meta ''quality_score'' = Some q \<and>
          score_in_range (dict_get meta ''quality_score'' PNone) = score_in_range q
      | Inl e \<Rightarrow>
          py_lt_int q t = Inl e \<or>
          (py_lt_int q t = Inr True \<and>
           (\<exists>kv. py_get (validate_corrections loads create cs text)
                    ''valid_corrections'' (PList []) = Inr (PDict kv)))"
proof (cases "validate_try loads create cs text")
  case (Inl e)
  show ?thesis
    by (simp add: Inl filter_corrections_after_failure [OF Inl] dict_get_def)
next
  case (Inr v)
  then obtain d n m where v: "v = PDict d"
    and n: "py_len (dict_get d ''valid_corrections'' (PList [])) = Inr n"
    and m: "py_len (dict_get d ''rejected_corrections'' (PList [])) = Inr m"
    using validate_try_sized by blast
  define q where "q = dict_get d ''quality_score'' (PInt 0)"
  define valid where "valid = dict_get d ''valid_corrections'' (PList [])"
  have q': "(case map_of d ''quality_score'' of None \<Rightarrow> PInt 0 | Some x \<Rightarrow> x) = q"
    by (simp add: q_def dict_get_def)
  have vc: "validate_corrections loads create cs text = PDict d"
    using Inr v by (simp add: validate_corrections_def)
  have meta: "map_of ((''discriminator_used'', PBool True) # (''quality_score'', q) # rest)
                ''quality_score'' = Some q" for rest
    by simp
  show ?thesis
  proof (cases "py_lt_int q t")
    case (Inl e)
    then show ?thesis
      using Inr v vc by (simp add: q' filter_corrections_def q_def [symmetric])
  next
    case b: (Inr b)
    show ?thesis
    proof (cases b)
      case False
      then show ?thesis
        using Inr v vc b n m
        by (simp add: q' filter_corrections_def q_def [symmetric] valid_def [symmetric]
              dict_get_def [of "(''discriminator_used'', PBool True) # _"])
    next
      case True
      from py_slice_to_sized [OF n [folded valid_def], of "max 1 (n div 2)"]
      show ?thesis
      proof (elim disjE exE conjE)
        fix w k assume "py_slice_to valid (max 1 (n div 2)) = Inr w" "py_len w = Inr k"
        then show ?thesis
          using Inr v vc b True n m
          by (simp add: q' filter_corrections_def truncate_low_quality_def
                q_def [symmetric] valid_def [symmetric]
                dict_get_def [of "(''discriminator_used'', PBool True) # _"])
      next
        fix kv e assume "valid = PDict kv" "py_slice_to valid (max 1 (n div 2)) = Inl e"
        then show ?thesis
          using Inr v vc b True n m
          by (simp add: q' filter_corrections_def truncate_low_quality_def
                q_def [symmetric] valid_def [symmetric])
      qed
    qed
  qed
qed

theorem quality_score_passed_through_witness:
  "validate_try sample_loads (answering accept_text) [correction ''a'' ''b'' ''c'']
     ''Kissa on mustaa.'' = Inr accept_value \<and>
   filter_corrections sample_loads (answering accept_text) [correction ''a'' ''b'' ''c'']
     ''Kissa on mustaa.'' 70 =
     Inr (PList [correction ''a'' ''b'' ''c''],
          [(''discriminator_used'', PBool True),
           (''quality_score'', PInt 90),
           (''original_count'', PInt 1),
           (''filtered_count'', PInt 1),
           (''rejected_count'', PInt 0),
           (''summary'', PStr ''good''),
           (''rejected_reasons'', PList [])]) \<and>
   score_in_range (PInt 90)"
  using quality_score_passed_through
          [of sample_loads "answering accept_text" "[correction ''a'' ''b'' ''c'']"
              "''Kissa on mustaa.''" 70]
  by (simp add: validate_try_samples filter_corrections_samples accept_value_def
        dict_get_def score_in_range_def)

text \<open>
  Claim C9 as stated fails: the discriminator answers with score 150, and 150 is the score
  in the metadata.
\<close>

theorem quality_score_unclamped_counterexample:
  "filter_corrections sample_loads (answering over_score_text) [correction ''a'' ''b'' ''c'']
     ''Kissa on mustaa.'' 70 =
     Inr (PList [correction ''a'' ''b'' ''c''],
          [(''discriminator_used'', PBool True),
           (''quality_score'', PInt 150),
           (''original_count'', PInt 1),
           (''filtered_count'', PInt 1),
           (''rejected_count'', PInt 0),
           (''summary'', PStr ''good''),
           (''rejected_reasons'', PList [])]) \<and>
   \<not> score_in_range (PInt 150)"
  by (simp add: filter_corrections_samples score_in_range_def)

lemma take_min_length: "take (min (length xs) k) xs = take k xs"
  by (cases "k \<le> length xs") (simp_all add: min_def)

lemma filter_corrections_failing_one:
  "filter_corrections sample_loads failing_call [c] text 70 =
     Inr (PList [c],
          [(''discriminator_used'', PBool True),
           (''quality_score'', PInt 50),
           (''original_count'', PInt 1),
           (''filtered_count'', PInt 1),
           (''rejected_count'', PInt 0),
           (''summary'',
              PStr ''Validation failed: Connection error.. Returned all corrections.''),
           (''rejected_reasons'', PList [])])"
  by (simp add: filter_corrections_after_failure [OF failing_call_fails])

text \<open>
  Claim C7, as the code has it. \<^verbatim>\<open>batch_validate\<close> never raises and returns one result
  for each batch that \<^verbatim>\<open>zip\<close> pairs with a text. The result of batch \<open>i\<close> is what
  \<^verbatim>\<open>filter_corrections\<close> gives for that batch, its text and its own call, or, when
  \<^verbatim>\<open>filter_corrections\<close> raises, the batch itself with the error and
  \<^verbatim>\<open>discriminator_used\<close> false; no other batch, text or call has a part in it. A failure
  of the discriminator's call never reaches that handler, because \<^verbatim>\<open>validate_corrections\<close>
  catches it: the result of such a batch is the fallback of \<^verbatim>\<open>filter_corrections\<close>, a
  prefix of the batch with \<^verbatim>\<open>discriminator_used\<close> true, score 50, the failure in the
  summary and no \<^verbatim>\<open>error\<close> key. In the example the second batch's answer makes
  \<^verbatim>\<open>filter_corrections\<close> raise and the third batch's call raises.
\<close>

theorem batch_validate_isolates_failure:
  assumes "i < length batches" and "i < length (texts_or_empty batches texts)"
  shows "length (batch_validate loads creates batches texts) =
           min (length batches) (length (texts_or_empty batches texts)) \<and>
         batch_validate loads creates batches texts ! i =
           (case filter_corrections loads (creates i) (batches ! i)
                   (texts_or_empty batches texts ! i) default_min_quality_score of
              Inl e \<Rightarrow>
                (PList (batches ! i),
                 [(''error'', PStr (str_exn e)), (''discriminator_used'', PBool False)])
            | Inr r \<Rightarrow> r) \<and>
         (validate_try loads (creates i) (batches ! i) (texts_or_empty batches texts ! i) =
            Inl e \<longrightarrow>
          (\<exists>kept meta.
             batch_validate loads creates batches texts ! i = (PList kept, meta) \<and>
             kept = take (length kept) (batches ! i) \<and>
             map_of meta ''discriminator_used'' = Some (PBool True) \<and>
             map_of meta ''error'' = None \<and>
             map_of meta ''quality_score'' = Some (PInt 50) \<and>
             map_of meta ''summary'' =
               Some (PStr (''Validation failed: '' @ str_exn e @
                           ''. Returned all corrections.''))))"
proof -
  let ?f = "filter_corrections loads (creates i) (batches ! i)
              (texts_or_empty batches texts ! i) default_min_quality_score"
  have nth: "batch_validate loads creates batches texts ! i =
           (case ?f of
              Inl e \<Rightarrow>
                (PList (batches ! i),
                 [(''error'', PStr (str_exn e)), (''discriminator_used'', PBool False)])
            | Inr r \<Rightarrow> r)"
    using assms
    by (simp add: batch_validate_def Let_def nth_enumerate_eq batch_fallback_def
          split: sum.splits)
  have len: "length (batch_validate loads creates batches texts) =
           min (length batches) (length (texts_or_empty batches texts))"
    by (simp add: batch_validate_def Let_def)
  have swallowed: "\<exists>kept meta.
             batch_validate loads creates batches texts ! i = (PList kept, meta) \<and>
             kept = take (length kept) (batches ! i) \<and>
             map_of meta ''discriminator_used'' = Some (PBool True) \<and>
             map_of meta ''error'' = None \<and>
             map_of meta ''quality_score'' = Some (PInt 50) \<and>
             map_of meta ''summary'' =
               Some (PStr (''Validation failed: '' @ str_exn e @
                           ''. Returned all corrections.''))"
    if "validate_try loads (creates i) (batches ! i) (texts_or_empty batches texts ! i) = Inl e"
    using nth by (simp add: filter_corrections_after_failure [OF that] take_min_length)
  from len nth swallowed show ?thesis by blast
qed

theorem batch_validate_isolates_failure_witness:
  "(2::nat) < length three_batches \<and> 2 < length (texts_or_empty three_batches None) \<and>
   validate_try sample_loads (three_batch_calls 2) (three_batches ! 2)
     (texts_or_empty three_batches None ! 2) = Inl (Exn OracleError ''Connection error.'') \<and>
   batch_validate sample_loads three_batch_calls three_batches None =
     [(PList [correction ''a'' ''b'' ''c''],
       [(''discriminator_used'', PBool True),
        (''quality_score'', PInt 90),
        (''original_count'', PInt 1),
        (''filtered_count'', PInt 1),
        (''rejected_count'', PInt 0),
        (''summary'', PStr ''good''),
        (''rejected_reasons'', PList [])]),
      (PList [correction ''d'' ''e'' ''f''],
       [(''error'',
           PStr ([CHR 0x27] @ ''<'' @ [CHR 0x27] @ '' not supported between instances of '' @
                 [CHR 0x27] @ ''str'' @ [CHR 0x27] @ '' and '' @
                 [CHR 0x27] @ ''int'' @ [CHR 0x27])),
        (''discriminator_used'', PBool False)]),
      (PList [correction ''g'' ''h'' ''i''],
       [(''discriminator_used'', PBool True),
        (''quality_score'', PInt 50),
        (''original_count'', PInt 1),
        (''filtered_count'', PInt 1),
        (''rejected_count'', PInt 0),
        (''summary'',
           PStr ''Validation failed: Connection error.. Returned all corrections.''),
        (''rejected_reasons'', PList [])])]"
proof -
  have h1: "(2::nat) < length three_batches" by (simp add: three_batches_def)
  have h2: "2 < length (texts_or_empty three_batches None)"
    by (simp add: texts_or_empty_def three_batches_def)
  have h3: "validate_try sample_loads (three_batch_calls 2) (three_batches ! 2)
     (texts_or_empty three_batches None ! 2) = Inl (Exn OracleError ''Connection error.'')"
    by (simp add: three_batch_calls_def failing_call_fails)
  have e: "batch_validate sample_loads three_batch_calls three_batches None =
     [(PList [correction ''a'' ''b'' ''c''],
       [(''discriminator_used'', PBool True),
        (''quality_score'', PInt 90),
        (''original_count'', PInt 1),
        (''filtered_count'', PInt 1),
        (''rejected_count'', PInt 0),
        (''summary'', PStr ''good''),
        (''rejected_reasons'', PList [])]),
      (PList [correction ''d'' ''e'' ''f''],
       [(''error'',
           PStr ([CHR 0x27] @ ''<'' @ [CHR 0x27] @ '' not supported between instances of '' @
                 [CHR 0x27] @ ''str'' @ [CHR 0x27] @ '' and '' @
                 [CHR 0x27] @ ''int'' @ [CHR 0x27])),
        (''discriminator_used'', PBool False)]),
      (PList [correction ''g'' ''h'' ''i''],
       [(''discriminator_used'', PBool True),
        (''quality_score'', PInt 50),
        (''original_count'', PInt 1),
        (''filtered_count'', PInt 1),
        (''rejected_count'', PInt 0),
        (''summary'',
           PStr ''Validation failed: Connection error.. Returned all corrections.''),
        (''rejected_reasons'', PList [])])]"
    by (simp add: batch_validate_def Let_def texts_or_empty_def three_batches_def
          three_batch_calls_def default_min_quality_score_def filter_corrections_samples
          filter_corrections_failing_one batch_fallback_def)
  show ?thesis
    using h1 h2 h3 e
      batch_validate_isolates_failure
        [OF h1 h2, of sample_loads three_batch_calls "Exn OracleError ''Connection error.''"]
    by simp
qed

text \<open>
  Claim C7 as stated fails: the call for the second of two batches raises, and the result
  for that batch is not the batch with the error and \<^verbatim>\<open>discriminator_used\<close> false, but the
  fallback of \<^verbatim>\<open>filter_corrections\<close> with \<^verbatim>\<open>discriminator_used\<close> true.
\<close>

theorem batch_validate_call_failure_counterexample:
  "validate_try sample_loads (failing_second 1) (two_batches ! 1) [] =
     Inl (Exn OracleError ''Connection error.'') \<and>
   batch_validate sample_loads failing_second two_batches None ! 1 =
     (PList [correction ''d'' ''e'' ''f''],
      [(''discriminator_used'', PBool True),
       (''quality_score'', PInt 50),
       (''original_count'', PInt 1),
       (''filtered_count'', PInt 1),
       (''rejected_count'', PInt 0),
       (''summary'',
          PStr ''Validation failed: Connection error.. Returned all corrections.''),
       (''rejected_reasons'', PList [])]) \<and>
   batch_validate sample_loads failing_second two_batches None ! 1 \<noteq>
     (PList (two_batches ! 1),
      [(''error'', PStr ''Connection error.''), (''discriminator_used'', PBool False)])"
  by (simp add: batch_validate_def Let_def texts_or_empty_def two_batches_def
        failing_second_def default_min_quality_score_def filter_corrections_samples
        filter_corrections_failing_one failing_call_fails)

section \<open>OracleGateway: construction and model presets\<close>

lemma clean_api_key_plain: "clean_api_key ''sk-test'' = ''sk-test''"
  by (simp add: clean_api_key_def)

text \<open>
  Claim C8, as the code has it. The constructor does not look at the model variant: for
  every variant it succeeds (a negative concurrency limit is its only failure) and stores the
  variant as given. \<^verbatim>\<open>create_payload\<close> then takes the slow preset (model o3-mini, role
  developer, high reasoning effort) for \<^verbatim>\<open>"slow"\<close> and the fast preset (model gpt-4o, role
  system, no reasoning effort) for every other variant.
\<close>

theorem construction_accepts_any_variant:
  assumes "0 \<le> k"
  shows "\<exists>self. WordGrammarChecker_init key prompt k n variant = Inr self \<and>
           chosen_model self = variant \<and>
           model (create_payload self) =
             (if variant = ''slow'' then ''o3-mini'' else ''gpt-4o'') \<and>
           map fst (messages (create_payload self)) =
             [if variant = ''slow'' then ''developer'' else ''system'', ''user''] \<and>
           reasoning_effort (create_payload self) =
             (if variant = ''slow'' then Some ''high'' else None)"
  using assms by (simp add: WordGrammarChecker_init_def create_payload_def)

theorem construction_accepts_any_variant_witness:
  "(0::int) \<le> 5 \<and>
   WordGrammarChecker_init ''sk-test'' ''Korjaa.'' 5 1 ''slow'' = Inr slow_checker \<and>
   chosen_model slow_checker = ''slow'' \<and>
   model (create_payload slow_checker) = ''o3-mini'' \<and>
   map fst (messages (create_payload slow_checker)) = [''developer'', ''user''] \<and>
   reasoning_effort (create_payload slow_checker) = Some ''high''"
proof -
  have h: "(0::int) \<le> 5" by simp
  have e: "WordGrammarChecker_init ''sk-test'' ''Korjaa.'' 5 1 ''slow'' = Inr slow_checker"
    by (simp add: WordGrammarChecker_init_def slow_checker_def clean_api_key_plain)
  show ?thesis
    using h e
      construction_accepts_any_variant
        [OF h, of "''sk-test''" "''Korjaa.''" 1 "''slow''"]
    by auto
qed

text \<open>
  Claim C8 as stated fails: the variant \<^verbatim>\<open>"turbo"\<close> is no preset, the constructor
  accepts it, and the payload is that of the fast preset.
\<close>

theorem unknown_variant_counterexample:
  "WordGrammarChecker_init ''sk-test'' ''Korjaa.'' 5 1 ''turbo'' = Inr turbo_checker \<and>
   model (create_payload turbo_checker) = ''gpt-4o'' \<and>
   reasoning_effort (create_payload turbo_checker) = None"
  by (simp add: WordGrammarChecker_init_def turbo_checker_def clean_api_key_plain
        create_payload_def)

section \<open>The concurrency gate of a fan-out\<close>

lemma count_update_in:
  assumes "i < length xs" and "\<not> P (xs ! i)" and "P y"
  shows "length (filter P (xs[i := y])) = Suc (length (filter P xs))"
proof -
  have a: "xs[i := y] = take i xs @ y # drop (Suc i) xs"
    using assms(1) by (rule upd_conv_take_nth_drop)
  have b: "xs = take i xs @ xs ! i # drop (Suc i) xs"
    using assms(1) by (rule id_take_nth_drop)
  have "length (filter P xs) =
          length (filter P (take i xs)) + length (filter P (drop (Suc i) xs))"
    using assms(2) by (subst b) simp
  moreover have "length (filter P (xs[i := y])) =
          Suc (length (filter P (take i xs)) + length (filter P (drop (Suc i) xs)))"
    using assms(3) by (simp add: a)
  ultimately show ?thesis by simp
qed

lemma count_update_out:
  assumes "i < length xs" and "P (xs ! i)" and "\<not> P y"
  shows "Suc (length (filter P (xs[i := y]))) = length (filter P xs)"
proof -
  have a: "xs[i := y] = take i xs @ y # drop (Suc i) xs"
    using assms(1) by (rule upd_conv_take_nth_drop)
  have b: "xs = take i xs @ xs ! i # drop (Suc i) xs"
    using assms(1) by (rule id_take_nth_drop)
  have "length (filter P xs) =
          Suc (length (filter P (take i xs)) + length (filter P (drop (Suc i) xs)))"
    using assms(2) by (subst b) simp
  moreover have "length (filter P (xs[i := y])) =
          length (filter P (take i xs)) + length (filter P (drop (Suc i) xs))"
    using assms(3) by (simp add: a)
  ultimately show ?thesis by simp
qed

lemma in_flight_enter:
  "can_enter s i \<Longrightarrow> in_flight (enter s i) = Suc (in_flight s)"
  by (simp add: can_enter_def enter_def in_flight_def count_update_in)

lemma in_flight_leave:
  "can_leave s i \<Longrightarrow> Suc (in_flight (leave f s i)) = in_flight s"
  by (simp add: can_leave_def leave_def in_flight_def count_update_out)

lemma step_keeps_total:
  assumes "step f s s'"
  shows "permits s' + in_flight s' = permits s + in_flight s \<and>
         length (calls s') = length (calls s)"
  using assms
proof cases
  case (acquire i)
  then show ?thesis
    using in_flight_enter [of s i] by (simp add: can_enter_def enter_def)
next
  case (release i)
  then show ?thesis
    using in_flight_leave [of s i f] by (simp add: leave_def)
qed

lemma in_flight_start: "in_flight (start self) = 0"
  by (simp add: in_flight_def start_def)

lemma run_keeps_total:
  assumes "run f self s"
  shows "permits s + in_flight s = semaphore self \<and>
         length (calls s) = nat (n_responses self)"
  using assms
proof (induction rule: run.induct)
  case initial
  show ?case by (simp add: in_flight_start) (simp add: start_def)
next
  case (next_step s s')
  then show ?case using step_keeps_total [of f s s'] by simp
qed

lemma step_finished_result:
  assumes "step f s s'" and "i < length (calls s')" and "calls s' ! i = Finished r"
    and "\<And>r. i < length (calls s) \<Longrightarrow> calls s ! i = Finished r \<Longrightarrow> r = make_api_call (f i)"
  shows "r = make_api_call (f i)"
  using assms(1)
proof cases
  case (acquire j)
  with assms(2,3,4) show ?thesis
    by (cases "i = j") (auto simp: enter_def can_enter_def)
next
  case (release j)
  with assms(2,3,4) show ?thesis
    by (cases "i = j") (auto simp: leave_def can_leave_def)
qed

lemma run_finished_result:
  assumes "run f self s"
  shows "i < length (calls s) \<Longrightarrow> calls s ! i = Finished r \<Longrightarrow> r = make_api_call (f i)"
  using assms
proof (induction arbitrary: r rule: run.induct)
  case initial
  then show ?case by (simp add: start_def)
next
  case (next_step s s')
  show ?case
    using next_step.hyps(2) next_step.prems
  proof (rule step_finished_result)
    fix r' assume "i < length (calls s)" "calls s ! i = Finished r'"
    then show "r' = make_api_call (f i)" by (rule next_step.IH)
  qed
qed

text \<open>
  The step relation and \<open>gather_calls\<close> agree: once all calls of a run have finished, their
  results are those of \<open>gather_calls\<close>, slot by slot.
\<close>

lemma run_joins_to_gather:
  assumes "run f self s" and "all_finished s"
  shows "map result_of (calls s) = gather_calls f (n_responses self)"
proof (rule nth_equalityI)
  have len: "length (calls s) = nat (n_responses self)"
    using run_keeps_total [OF assms(1)] by simp
  then show "length (map result_of (calls s)) = length (gather_calls f (n_responses self))"
    by (simp add: gather_calls_def)
  fix i assume "i < length (map result_of (calls s))"
  then have i: "i < length (calls s)" by simp
  then have "calls s ! i \<in> set (calls s)" by simp
  then have "calls s ! i \<noteq> Waiting \<and> calls s ! i \<noteq> InFlight"
    using assms(2) by (simp add: all_finished_def list_all_iff)
  then obtain r where r: "calls s ! i = Finished r" by (cases "calls s ! i") auto
  then have "r = make_api_call (f i)" using run_finished_result [OF assms(1) i] by simp
  with r i len show "map result_of (calls s) ! i = gather_calls f (n_responses self) ! i"
    by (simp add: gather_calls_def)
qed

text \<open>
  With a positive limit a run is never stuck before every call has finished: a call in
  flight can leave, and when none is in flight a waiting call can enter.
\<close>

lemma run_can_move:
  assumes "WordGrammarChecker_init key prompt k n chosen = Inr self" and "0 < k"
    and "run f self s" and "\<not> all_finished s"
  shows "\<exists>s'. step f s s'"
proof -
  have sem: "semaphore self = nat k"
    using assms(1) by (auto simp: WordGrammarChecker_init_def split: if_splits)
  have tot: "permits s + in_flight s = nat k"
    using run_keeps_total [OF assms(3)] sem by simp
  from assms(4) obtain i where i: "i < length (calls s)"
    and c: "calls s ! i = Waiting \<or> calls s ! i = InFlight"
    by (auto simp: all_finished_def list_all_length)
  show ?thesis
  proof (cases "in_flight s = 0")
    case True
    then have none: "\<forall>c \<in> set (calls s). c \<noteq> InFlight"
      by (simp add: in_flight_def filter_empty_conv)
    with i c have "calls s ! i = Waiting" by (metis nth_mem)
    moreover have "0 < permits s" using tot True assms(2) by simp
    ultimately have "can_enter s i" using i by (simp add: can_enter_def)
    then show ?thesis by (blast intro: step.acquire)
  next
    case False
    then obtain c' where "c' \<in> set (calls s)" "c' = InFlight"
      by (auto simp: in_flight_def filter_empty_conv)
    then obtain j where "j < length (calls s)" "calls s ! j = InFlight"
      by (auto simp: in_set_conv_nth)
    then have "can_leave s j" by (simp add: can_leave_def)
    then show ?thesis by (blast intro: step.release)
  qed
qed

lemma run_two_in_flight: "run f gate_checker two_in_flight"
proof -
  let ?s0 = "start gate_checker"
  have s0: "?s0 = \<lparr> permits = 2, calls = [Waiting, Waiting, Waiting] \<rparr>"
    by (simp add: start_def gate_checker_def) code_simp
  have r0: "run f gate_checker ?s0" by (rule run.initial)
  have e0: "can_enter ?s0 0" by (simp add: s0 can_enter_def)
  have r1: "run f gate_checker (enter ?s0 0)"
    using r0 step.acquire [OF e0] by (rule run.next_step)
  have s1: "enter ?s0 0 = \<lparr> permits = 1, calls = [InFlight, Waiting, Waiting] \<rparr>"
    by (simp add: s0 enter_def)
  have e1: "can_enter (enter ?s0 0) 1" by (simp add: s1 can_enter_def)
  have r2: "run f gate_checker (enter (enter ?s0 0) 1)"
    using r1 step.acquire [OF e1] by (rule run.next_step)
  have "enter (enter ?s0 0) 1 = two_in_flight"
    by (simp add: s0 enter_def two_in_flight_def)
  with r2 show ?thesis by simp
qed

text \<open>
  Claim C6. Let the checker be built with concurrency limit \<open>k\<close> (5 when the caller gives
  none). In every state that a fan-out of its calls can reach, the calls in flight are at
  most \<open>k\<close>; the semaphore's counter and the calls in flight add up to \<open>k\<close>; and a waiting
  call can enter exactly when fewer than \<open>k\<close> calls are in flight, so that with \<open>k\<close> in
  flight every further call waits until one of them leaves.
\<close>

theorem gate_bounds_in_flight:
  assumes "WordGrammarChecker_init key prompt k n chosen = Inr self"
    and "run slot_outcome self s"
  shows "int (in_flight s) \<le> k \<and>
         int (permits s) + int (in_flight s) = k \<and>
         can_enter s i =
           (i < length (calls s) \<and> calls s ! i = Waiting \<and> int (in_flight s) < k)"
proof -
  have k: "0 \<le> k" and sem: "semaphore self = nat k"
    using assms(1) by (auto simp: WordGrammarChecker_init_def split: if_splits)
  have "permits s + in_flight s = nat k"
    using run_keeps_total [OF assms(2)] sem by simp
  with k show ?thesis by (auto simp: can_enter_def)
qed

theorem gate_bounds_in_flight_witness:
  "WordGrammarChecker_init ''sk-test'' ''Korjaa.'' 2 3 ''fast'' = Inr gate_checker \<and>
   run (flaky_call (create_payload gate_checker)) gate_checker two_in_flight \<and>
   in_flight two_in_flight = 2 \<and>
   \<not> can_enter two_in_flight 2"
proof -
  have h1: "WordGrammarChecker_init ''sk-test'' ''Korjaa.'' 2 3 ''fast'' = Inr gate_checker"
    by (simp add: WordGrammarChecker_init_def gate_checker_def clean_api_key_plain)
  have h2: "run (flaky_call (create_payload gate_checker)) gate_checker two_in_flight"
    by (rule run_two_in_flight)
  have n: "in_flight two_in_flight = 2"
    by (simp add: in_flight_def two_in_flight_def)
  show ?thesis
    using h1 h2 n gate_bounds_in_flight [OF h1 h2, of 2] by simp
qed

section \<open>The web entry and the discriminator\<close>

lemma unexpected_use_discriminator:
  "unexpected_keyword [''n_responses'', ''chosen_model'', ''use_discriminator''] =
     Inl (Exn TypeError
       (''WordGrammarChecker.__init__() got an unexpected keyword argument '' @
        [CHR 0x27] @ ''use_discriminator'' @ [CHR 0x27]))"
  by (simp add: unexpected_keyword_def init_parameters_def)

lemma process_sections_never_constructs:
  assumes "sessions (session_token data) = Some (username, key)"
    and "selected_titles data \<noteq> []"
    and "strip_chars whitespace_chars (text_for_corrections data) \<noteq> []"
  shows "process_sections loads create prompt sessions data =
           Inl (Unhandled (Exn TypeError
             (''WordGrammarChecker.__init__() got an unexpected keyword argument '' @
              [CHR 0x27] @ ''use_discriminator'' @ [CHR 0x27])))"
  using assms by (simp add: process_sections_def unexpected_use_discriminator)

text \<open>
  Claim C1 at its failing input. \<^verbatim>\<open>process_sections\<close> asks for the discriminator with
  the keyword \<^verbatim>\<open>use_discriminator=True\<close>, which \<^verbatim>\<open>WordGrammarChecker.__init__\<close> does not
  have: for a logged-in request with a title and a text the constructor call raises
  \<^verbatim>\<open>TypeError\<close>, outside the handler's \<^verbatim>\<open>try\<close>, and no response is extracted or
  validated. \<^verbatim>\<open>process_text\<close> itself returns the extractions as they are; it has no
  call of the discriminator.
\<close>

theorem process_sections_fails_before_validation:
  "process_sections sample_loads flaky_call ''Korjaa.'' sample_sessions sample_request =
     Inl (Unhandled (Exn TypeError
       (''WordGrammarChecker.__init__() got an unexpected keyword argument '' @
        [CHR 0x27] @ ''use_discriminator'' @ [CHR 0x27])))"
proof -
  have "strip_chars whitespace_chars ''Kissa on mustaa.'' \<noteq> []"
    by (simp add: strip_chars_def whitespace_chars_def)
  then show ?thesis
    by (intro process_sections_never_constructs [where username = "''AIBooks1''" and key = "''sk-test''"])
       (simp_all add: sample_sessions_def sample_request_def)
qed

end
